theory Spec2Isabelle
  imports Complex_Main "HOL-Library.Word" "HOL-Library.Sublist" "HOL-Library.Multiset"
    "HOL-Library.Monad_Syntax"
    "HOL-Library.Monad_Syntax"
begin

section \<open>Strings\<close>

text \<open>
  A JavaScript string is a sequence of 16-bit code units.  ASCII literals of the
  source are written through \<open>ascii\<close>; text outside ASCII is given by its code units.
\<close>

type_synonym jsstring = "16 word list"

definition ascii :: "string \<Rightarrow> jsstring" where
  "ascii s = map (\<lambda>c. of_char c) s"

section \<open>Archive Locator (save.service.ts)\<close>

text \<open>
  \<^verbatim>\<open>const LEVEL_INIT_NAME = "level-init.dat";\<close>
\<close>

definition LEVEL_INIT_NAME :: jsstring where
  "LEVEL_INIT_NAME = ascii ''level-init.dat''"

text \<open>
  An entry of the zip listing.  Only \<open>path\<close> is read by the locator; the source
  guards it with \<open>f.path ?? ""\<close>, so it may be absent.  The lazily read content
  (\<open>buffer()\<close>) is kept as a byte list.
\<close>

record zip_entry =
  path :: "jsstring option"
  content :: "8 word list"

text \<open>\<^verbatim>\<open>(f.path ?? "").replace(/\\/g, "/")\<close>\<close>

definition normalize_separators :: "jsstring option \<Rightarrow> jsstring" where
  "normalize_separators p =
     map (\<lambda>c. if c = 0x5C then 0x2F else c) (case p of None \<Rightarrow> [] | Some s \<Rightarrow> s)"

text \<open>
  The predicate of \<open>files.find\<close>:
  \<^verbatim>\<open>return p.endsWith(LEVEL_INIT_NAME) || p === LEVEL_INIT_NAME;\<close>
\<close>

definition entry_matches :: "zip_entry \<Rightarrow> bool" where
  "entry_matches f =
     (let p = normalize_separators (path f)
      in suffix LEVEL_INIT_NAME p \<or> p = LEVEL_INIT_NAME)"

definition findLevelInitInZip :: "zip_entry list \<Rightarrow> zip_entry option" where
  "findLevelInitInZip files = find entry_matches files"

text \<open>
  The matching rule of the specification, written from its words: the normalised
  path equals the basename or ends with a separator followed by the basename.
\<close>

definition spec_entry_matches :: "zip_entry \<Rightarrow> bool" where
  "spec_entry_matches f =
     (let p = normalize_separators (path f)
      in p = LEVEL_INIT_NAME \<or> suffix (0x2F # LEVEL_INIT_NAME) p)"


section \<open>Filename Normalizer (gameSaveRepository.ts)\<close>

subsection \<open>Runtime conversions used by the normalizer\<close>

text \<open>
  The normalizer calls into the Node runtime: \<open>Buffer.from(str, "utf8")\<close>,
  \<open>Buffer.from(str, "latin1")\<close>, \<open>buffer.toString("utf8")\<close> and
  \<open>decodeURIComponent\<close>.  They are modelled from their published behaviour:
  the encoder replaces a lone surrogate by U+FFFD, the \<open>latin1\<close> encoder keeps the
  low byte of every code unit, the decoder replaces every maximal ill-formed part
  by U+FFFD (the decoder of the Encoding standard), and \<open>decodeURIComponent\<close>
  follows the Decode operation of ECMAScript, \<open>None\<close> standing for a thrown
  \<open>URIError\<close>.
\<close>

fun utf16_code_points :: "jsstring \<Rightarrow> nat list" where
  "utf16_code_points [] = []"
| "utf16_code_points [c] = [if 0xD800 \<le> c \<and> c \<le> 0xDFFF then 0xFFFD else unat c]"
| "utf16_code_points (c # d # cs) =
     (if 0xD800 \<le> c \<and> c \<le> 0xDBFF \<and> 0xDC00 \<le> d \<and> d \<le> 0xDFFF
      then (0x10000 + (unat c - 0xD800) * 0x400 + (unat d - 0xDC00)) # utf16_code_points cs
      else (if 0xD800 \<le> c \<and> c \<le> 0xDFFF then 0xFFFD else unat c) # utf16_code_points (d # cs))"

definition utf8_encode_code_point :: "nat \<Rightarrow> 8 word list" where
  "utf8_encode_code_point cp =
     (if cp < 0x80 then [of_nat cp]
      else if cp < 0x800 then [of_nat (0xC0 + cp div 64), of_nat (0x80 + cp mod 64)]
      else if cp < 0x10000 then
        [of_nat (0xE0 + cp div 4096), of_nat (0x80 + cp div 64 mod 64), of_nat (0x80 + cp mod 64)]
      else
        [of_nat (0xF0 + cp div 262144), of_nat (0x80 + cp div 4096 mod 64),
         of_nat (0x80 + cp div 64 mod 64), of_nat (0x80 + cp mod 64)])"

definition Buffer_from_utf8 :: "jsstring \<Rightarrow> 8 word list" where
  "Buffer_from_utf8 s = concat (map utf8_encode_code_point (utf16_code_points s))"

definition Buffer_from_latin1 :: "jsstring \<Rightarrow> 8 word list" where
  "Buffer_from_latin1 s = map (\<lambda>c. ucast c) s"

text \<open>
  The decoder state is the code point collected so far, the number of continuation
  bytes still needed and the bounds of the next continuation byte.  \<open>None\<close> in the
  output marks a replaced ill-formed part.
\<close>

fun utf8_decode :: "nat \<Rightarrow> nat \<Rightarrow> nat \<Rightarrow> nat \<Rightarrow> 8 word list \<Rightarrow> nat option list" where
  "utf8_decode cp r lo hi [] = (if r = 0 then [] else [None])"
| "utf8_decode cp r lo hi (w # ws) =
     (let b = unat w in
      if r = 0 then
        (if b \<le> 0x7F then Some b # utf8_decode 0 0 0x80 0xBF ws
         else if 0xC2 \<le> b \<and> b \<le> 0xDF then utf8_decode (b mod 32) 1 0x80 0xBF ws
         else if 0xE0 \<le> b \<and> b \<le> 0xEF then
           utf8_decode (b mod 16) 2 (if b = 0xE0 then 0xA0 else 0x80) (if b = 0xED then 0x9F else 0xBF) ws
         else if 0xF0 \<le> b \<and> b \<le> 0xF4 then
           utf8_decode (b mod 8) 3 (if b = 0xF0 then 0x90 else 0x80) (if b = 0xF4 then 0x8F else 0xBF) ws
         else None # utf8_decode 0 0 0x80 0xBF ws)
      else if b < lo \<or> hi < b then None # utf8_decode 0 0 0x80 0xBF (w # ws)
      else if r = 1 then Some (cp * 64 + b mod 64) # utf8_decode 0 0 0x80 0xBF ws
      else utf8_decode (cp * 64 + b mod 64) (r - 1) 0x80 0xBF ws)"

definition utf16_encode_code_point :: "nat \<Rightarrow> jsstring" where
  "utf16_encode_code_point cp =
     (if cp < 0x10000 then [of_nat cp]
      else [of_nat (0xD800 + (cp - 0x10000) div 0x400), of_nat (0xDC00 + (cp - 0x10000) mod 0x400)])"

definition Buffer_toString_utf8 :: "8 word list \<Rightarrow> jsstring" where
  "Buffer_toString_utf8 bs =
     concat (map (\<lambda>v. utf16_encode_code_point (case v of None \<Rightarrow> 0xFFFD | Some cp \<Rightarrow> cp))
       (utf8_decode 0 0 0x80 0xBF bs))"

definition hex_digit :: "16 word \<Rightarrow> nat option" where
  "hex_digit c =
     (if 0x30 \<le> c \<and> c \<le> 0x39 then Some (unat c - 0x30)
      else if 0x41 \<le> c \<and> c \<le> 0x46 then Some (unat c - 0x41 + 10)
      else if 0x61 \<le> c \<and> c \<le> 0x66 then Some (unat c - 0x61 + 10)
      else None)"

text \<open>A string made of \<open>%XX\<close> escapes only, read as the octets they denote.\<close>

fun parse_escapes :: "jsstring \<Rightarrow> 8 word list option" where
  "parse_escapes [] = Some []"
| "parse_escapes (p # h # l # cs) =
     (if p = 0x25 then
        (case (hex_digit h, hex_digit l, parse_escapes cs) of
           (Some a, Some b, Some r) \<Rightarrow> Some (of_nat (16 * a + b) # r)
         | _ \<Rightarrow> None)
      else None)"
| "parse_escapes _ = None"

text \<open>The number of leading one bits of the first octet of an escape sequence.\<close>

definition escape_length :: "8 word \<Rightarrow> nat" where
  "escape_length B =
     (if B < 0x80 then 0 else if B < 0xC0 then 1 else if B < 0xE0 then 2
      else if B < 0xF0 then 3 else if B < 0xF8 then 4 else 5)"

fun decodeURIComponent :: "jsstring \<Rightarrow> jsstring option" where
  "decodeURIComponent [] = Some []"
| "decodeURIComponent (c # cs) =
     (if c \<noteq> 0x25 then map_option ((#) c) (decodeURIComponent cs)
      else
        (case parse_escapes (take 3 (c # cs)) of
           Some [B] \<Rightarrow>
             (let n = escape_length B in
              if n = 0 then map_option ((#) (ucast B)) (decodeURIComponent (drop 2 cs))
              else if n = 1 \<or> n > 4 then None
              else
                (case parse_escapes (take (3 * n) (c # cs)) of
                   Some octets \<Rightarrow>
                     (if length octets = n then
                        (case utf8_decode 0 0 0x80 0xBF octets of
                           [Some V] \<Rightarrow>
                             map_option ((@) (utf16_encode_code_point V))
                               (decodeURIComponent (drop (3 * n - 1) cs))
                         | _ \<Rightarrow> None)
                      else None)
                 | None \<Rightarrow> None))
         | _ \<Rightarrow> None))"

subsection \<open>The normalizer\<close>

text \<open>
  \<^verbatim>\<open>return Buffer.from(str, "utf8").toString("utf8") === str;\<close>
\<close>

definition isValidUTF8 :: "jsstring \<Rightarrow> bool" where
  "isValidUTF8 str \<longleftrightarrow> Buffer_toString_utf8 (Buffer_from_utf8 str) = str"

text \<open>The test of the regular expression over the code units U+4E00 to U+9FFF.\<close>

definition containsChinese :: "jsstring \<Rightarrow> bool" where
  "containsChinese str \<longleftrightarrow> (\<exists>c \<in> set str. 0x4E00 \<le> c \<and> c \<le> 0x9FFF)"

text \<open>
  The character class of \<open>garbledPattern\<close>: the Latin-1 letters U+00E5, U+00E6,
  U+00E8 to U+00F6 and U+00F8 to U+00FF, in the order of the source.
\<close>

definition garbledPattern :: "16 word list" where
  "garbledPattern =
     [0xE6, 0xE5, 0xE8, 0xE9, 0xEA, 0xEB, 0xEC, 0xED, 0xEE, 0xEF, 0xF0, 0xF1, 0xF2, 0xF3,
      0xF4, 0xF5, 0xF6, 0xF8, 0xF9, 0xFA, 0xFB, 0xFC, 0xFD, 0xFE, 0xFF]"

definition looksLikeGarbled :: "jsstring \<Rightarrow> bool" where
  "looksLikeGarbled str \<longleftrightarrow> (\<exists>c \<in> set str. c \<in> set garbledPattern) \<and> \<not> containsChinese str"

text \<open>
  \<open>decodeFileName\<close>: the empty name gives \<open>"unnamed"\<close>; then the three attempts in
  the order of the source, each falling through when it does not return (a thrown
  \<open>URIError\<close> is caught and falls through as well); at last the name itself.
\<close>

definition decodeFileName :: "jsstring \<Rightarrow> jsstring" where
  "decodeFileName fileName =
     (if fileName = [] then ascii ''unnamed''
      else
        (case (if 0x25 \<in> set fileName
               then (case decodeURIComponent fileName of
                       Some decoded \<Rightarrow> if isValidUTF8 decoded then Some decoded else None
                     | None \<Rightarrow> None)
               else None) of
           Some decoded \<Rightarrow> decoded
         | None \<Rightarrow>
            (case (if \<not> isValidUTF8 fileName
                   then (let decoded = Buffer_toString_utf8 (Buffer_from_latin1 fileName)
                         in if containsChinese decoded then Some decoded else None)
                   else None) of
               Some decoded \<Rightarrow> decoded
             | None \<Rightarrow>
                (if looksLikeGarbled fileName
                 then Buffer_toString_utf8 (Buffer_from_latin1 fileName)
                 else fileName))))"

section \<open>Storage Manager (gameSaveRepository.ts)\<close>

text \<open>
  The storage root is a flat directory.  An entry has a name, is a regular file
  or not, and carries its modification time in milliseconds and its bytes.
  \<open>None\<close> is the storage root that does not exist yet.
\<close>

record stored_file =
  file_name :: jsstring
  isFile :: bool
  mtimeMs :: real
  file_bytes :: "8 word list"

type_synonym upload_dir = "stored_file list option"

datatype io_error = IOError

text \<open>
  What the repository takes from its environment: the value of \<open>randomUUID()\<close>,
  \<open>path.extname\<close>, the clock, and which file-system calls fail.
\<close>

record runtime =
  randomUUID :: jsstring
  extname :: "jsstring \<Rightarrow> jsstring"
  now :: real
  mkdir_fails :: bool
  readdir_fails :: bool
  stat_fails :: "jsstring \<Rightarrow> bool"
  unlink_fails :: "jsstring \<Rightarrow> bool"
  writeFile_fails :: bool

definition ensureUploadDirExists :: "runtime \<Rightarrow> upload_dir \<Rightarrow> io_error + stored_file list" where
  "ensureUploadDirExists rt dir =
     (case dir of
        Some entries \<Rightarrow> Inr entries
      | None \<Rightarrow> if mkdir_fails rt then Inl IOError else Inr [])"

text \<open>\<open>fs.unlink\<close> fails when the runtime says so or when no such file exists.\<close>

definition unlink :: "runtime \<Rightarrow> jsstring \<Rightarrow> stored_file list \<Rightarrow> io_error + stored_file list" where
  "unlink rt n entries =
     (if unlink_fails rt n \<or> \<not> (\<exists>e \<in> set entries. file_name e = n \<and> isFile e) then Inl IOError
      else Inr (filter (\<lambda>e. file_name e \<noteq> n) entries))"

text \<open>
  The deletion loop: \<^verbatim>\<open>try { await fs.unlink(f.path); } catch (err) { console.error(...) }\<close>.
  A failed deletion is logged and the loop goes on with the directory as it is.
\<close>

fun prune_loop :: "runtime \<Rightarrow> stored_file list \<Rightarrow> stored_file list \<Rightarrow> stored_file list" where
  "prune_loop rt [] entries = entries"
| "prune_loop rt (f # toRemove) entries =
     (case unlink rt (file_name f) entries of
        Inl err \<Rightarrow> prune_loop rt toRemove entries
      | Inr entries' \<Rightarrow> prune_loop rt toRemove entries')"

text \<open>
  \<open>pruneOldFilesIfExceed\<close> returns the outcome (\<open>Inl\<close> when the promise rejects)
  together with the storage root it leaves.  \<open>sort\<close> of the source is stable and
  compares modification times, as \<open>sort_key\<close> does.
\<close>

definition pruneOldFilesIfExceed ::
  "runtime \<Rightarrow> nat \<Rightarrow> upload_dir \<Rightarrow> (io_error + unit) \<times> upload_dir" where
  "pruneOldFilesIfExceed rt maxCount dir =
     (case ensureUploadDirExists rt dir of
        Inl err \<Rightarrow> (Inl err, dir)
      | Inr entries \<Rightarrow>
          if readdir_fails rt then (Inl IOError, Some entries)
          else
            (let files = filter isFile entries in
             if length files \<le> maxCount then (Inr (), Some entries)
             else if \<exists>f \<in> set files. stat_fails rt (file_name f) then (Inl IOError, Some entries)
             else
               (let withStat = sort_key mtimeMs files;
                    toRemove = take (length withStat - maxCount) withStat
                in (Inr (), Some (prune_loop rt toRemove entries)))))"

text \<open>The regular files of the storage root, and the invariant of a directory.\<close>

definition stored_files :: "upload_dir \<Rightarrow> stored_file list" where
  "stored_files dir = (case dir of None \<Rightarrow> [] | Some entries \<Rightarrow> filter isFile entries)"

definition well_formed_dir :: "upload_dir \<Rightarrow> bool" where
  "well_formed_dir dir \<longleftrightarrow> (case dir of None \<Rightarrow> True | Some entries \<Rightarrow> distinct (map file_name entries))"

subsection \<open>Saving an upload\<close>

record upload_file =
  originalname :: jsstring
  mimetype :: jsstring
  file_size :: nat
  buffer :: "8 word list"

record saved_file =
  saved_filename :: jsstring
  saved_path :: jsstring
  saved_originalName :: jsstring

definition uploadDir :: jsstring where
  "uploadDir = ascii ''game-saves''"

definition writeFile ::
  "runtime \<Rightarrow> jsstring \<Rightarrow> 8 word list \<Rightarrow> stored_file list \<Rightarrow> io_error + stored_file list" where
  "writeFile rt n bytes entries =
     (if writeFile_fails rt \<or> (\<exists>e \<in> set entries. file_name e = n \<and> \<not> isFile e) then Inl IOError
      else if \<exists>e \<in> set entries. file_name e = n
      then Inr (map (\<lambda>e. if file_name e = n then e\<lparr>mtimeMs := now rt, file_bytes := bytes\<rparr> else e) entries)
      else Inr (entries @ [\<lparr>file_name = n, isFile = True, mtimeMs = now rt, file_bytes = bytes\<rparr>]))"

text \<open>
  \<open>saveFileAsync\<close>: \<^verbatim>\<open>const ext = path.extname(originalName) || ".zip";\<close>
  \<^verbatim>\<open>const safeFilename = `${randomUUID()}${ext}`;\<close>
\<close>

definition saveFileAsync ::
  "runtime \<Rightarrow> upload_file \<Rightarrow> upload_dir \<Rightarrow> (io_error + saved_file) \<times> upload_dir" where
  "saveFileAsync rt file dir =
     (case ensureUploadDirExists rt dir of
        Inl err \<Rightarrow> (Inl err, dir)
      | Inr entries \<Rightarrow>
          (let originalName = decodeFileName (originalname file);
               ext = (if extname rt originalName = [] then ascii ''.zip'' else extname rt originalName);
               safeFilename = randomUUID rt @ ext;
               filePath = uploadDir @ ascii ''/'' @ safeFilename
           in case writeFile rt safeFilename (buffer file) entries of
                Inl err \<Rightarrow> (Inl err, Some entries)
              | Inr entries' \<Rightarrow>
                  (Inr \<lparr>saved_filename = safeFilename, saved_path = filePath,
                        saved_originalName = originalName\<rparr>, Some entries')))"

section \<open>Upload service (gameSaveService.ts)\<close>

datatype status_code = OK | BAD_REQUEST | NOT_FOUND | INTERNAL_SERVER_ERROR

text \<open>
  Modelled from the spec: \<open>ServiceResponse\<close> (common/models/serviceResponse.ts) is
  not among the sources; the specification describes it as a uniform
  success/failure response.  A response is a success with a message, a payload
  and a status code, or a failure with a message and a status code.
\<close>

datatype 'a service_response = Success string 'a status_code | Failure string status_code

record game_save_upload_response =
  resp_filename :: jsstring
  resp_originalName :: jsstring
  resp_mimetype :: jsstring
  resp_size :: nat
  resp_path :: jsstring
  resp_uploadTime :: real

definition allowedMimeTypes :: "jsstring list" where
  "allowedMimeTypes =
     [ascii ''application/zip'',
      ascii ''application/x-zip-compressed'',
      ascii ''application/x-rar-compressed'',
      ascii ''application/x-rar'',
      ascii ''application/x-7z-compressed'',
      ascii ''application/gzip'',
      ascii ''application/x-gzip'',
      ascii ''application/x-tar'']"

definition maxSize :: nat where
  "maxSize = 200 * 1024 * 1024"

text \<open>
  \<open>uploadFile\<close> returns the response and the storage root it leaves.  An exception
  of \<open>saveFileAsync\<close> is caught and reported as an internal error.
\<close>

definition uploadFile ::
  "runtime \<Rightarrow> upload_file \<Rightarrow> upload_dir \<Rightarrow> game_save_upload_response service_response \<times> upload_dir" where
  "uploadFile rt file dir =
     (if mimetype file \<notin> set allowedMimeTypes then
        (Failure ''Invalid file type. Only compressed files (zip, rar, 7z, gz, tar) are allowed.''
           BAD_REQUEST, dir)
      else if file_size file > maxSize then
        (Failure ''File size exceeds the maximum limit of 100MB.'' BAD_REQUEST, dir)
      else
        (case saveFileAsync rt file dir of
           (Inl err, dir') \<Rightarrow>
             (Failure ''An error occurred while uploading the file.'' INTERNAL_SERVER_ERROR, dir')
         | (Inr saved, dir') \<Rightarrow>
             (Success ''File uploaded successfully''
                \<lparr>resp_filename = saved_filename saved, resp_originalName = saved_originalName saved,
                 resp_mimetype = mimetype file, resp_size = file_size file, resp_path = saved_path saved,
                 resp_uploadTime = now rt\<rparr> OK, dir')))"

definition is_failure :: "'a service_response \<Rightarrow> status_code \<Rightarrow> bool" where
  "is_failure r c = (case r of Failure m c' \<Rightarrow> c' = c | Success m x c' \<Rightarrow> False)"

section \<open>Numbers of the analysis\<close>

text \<open>
  The numbers of the analysis are the numbers of JavaScript: a finite value, the
  two infinities or NaN.  Finite values are modelled as exact reals, so the
  rounding of a double after each operation and the sign of zero are left out;
  the inputs named in the theorems below do not depend on either.
\<close>

datatype jsnum = NaN | NegInf | Fin real | PosInf

definition is_negative :: "jsnum \<Rightarrow> bool" where
  "is_negative x = (case x of NegInf \<Rightarrow> True | Fin a \<Rightarrow> a < 0 | _ \<Rightarrow> False)"

definition js_add :: "jsnum \<Rightarrow> jsnum \<Rightarrow> jsnum" where
  "js_add x y =
     (case x of
        NaN \<Rightarrow> NaN
      | Fin a \<Rightarrow> (case y of Fin b \<Rightarrow> Fin (a + b) | _ \<Rightarrow> y)
      | PosInf \<Rightarrow> (case y of NaN \<Rightarrow> NaN | NegInf \<Rightarrow> NaN | _ \<Rightarrow> PosInf)
      | NegInf \<Rightarrow> (case y of NaN \<Rightarrow> NaN | PosInf \<Rightarrow> NaN | _ \<Rightarrow> NegInf))"

definition js_mul :: "jsnum \<Rightarrow> jsnum \<Rightarrow> jsnum" where
  "js_mul x y =
     (if x = NaN \<or> y = NaN then NaN
      else case (x, y) of
        (Fin a, Fin b) \<Rightarrow> Fin (a * b)
      | _ \<Rightarrow> if x = Fin 0 \<or> y = Fin 0 then NaN
             else if is_negative x = is_negative y then PosInf else NegInf)"

definition js_div :: "jsnum \<Rightarrow> jsnum \<Rightarrow> jsnum" where
  "js_div x y =
     (if x = NaN \<or> y = NaN then NaN
      else case y of
        Fin b \<Rightarrow>
          (case x of
             Fin a \<Rightarrow>
               if b = 0 then (if a = 0 then NaN else if 0 < a then PosInf else NegInf)
               else Fin (a / b)
           | _ \<Rightarrow> if is_negative x = (b < 0) then PosInf else NegInf)
      | _ \<Rightarrow> (case x of Fin a \<Rightarrow> Fin 0 | _ \<Rightarrow> NaN))"

definition js_lt :: "jsnum \<Rightarrow> jsnum \<Rightarrow> bool" where
  "js_lt x y =
     (case x of
        NaN \<Rightarrow> False
      | NegInf \<Rightarrow> (case y of Fin b \<Rightarrow> True | PosInf \<Rightarrow> True | _ \<Rightarrow> False)
      | Fin a \<Rightarrow> (case y of Fin b \<Rightarrow> a < b | PosInf \<Rightarrow> True | _ \<Rightarrow> False)
      | PosInf \<Rightarrow> False)"

definition js_ge :: "jsnum \<Rightarrow> jsnum \<Rightarrow> bool" where
  "js_ge x y = (x \<noteq> NaN \<and> y \<noteq> NaN \<and> \<not> js_lt x y)"

definition Math_min :: "jsnum \<Rightarrow> jsnum \<Rightarrow> jsnum" where
  "Math_min x y = (if x = NaN \<or> y = NaN then NaN else if js_lt y x then y else x)"

text \<open>\<open>Math.round\<close> rounds a tie towards positive infinity.\<close>

definition round_half_up :: "real \<Rightarrow> int" where
  "round_half_up x = \<lfloor>x + 1 / 2\<rfloor>"

definition Math_round :: "jsnum \<Rightarrow> jsnum" where
  "Math_round x = (case x of Fin a \<Rightarrow> Fin (of_int (round_half_up a)) | _ \<Rightarrow> x)"

text \<open>
  \<open>Number(x.toFixed(2))\<close>: a finite value below \<open>10^21\<close> in magnitude is rounded to
  two decimals, a tie away from zero; any other value is printed in full and read
  back unchanged.
\<close>

definition Number_of_toFixed2 :: "jsnum \<Rightarrow> jsnum" where
  "Number_of_toFixed2 x =
     (case x of
        Fin a \<Rightarrow>
          if 10 ^ 21 \<le> \<bar>a\<bar> then Fin a
          else Fin (sgn a * of_int (round_half_up (\<bar>a\<bar> * 100)) / 100)
      | _ \<Rightarrow> x)"

text \<open>\<open>v || d\<close> on an optional number, the truth value of one, and \<open>s || d\<close> on a string.\<close>

definition number_or :: "real option \<Rightarrow> real \<Rightarrow> real" where
  "number_or v d = (case v of None \<Rightarrow> d | Some x \<Rightarrow> if x = 0 then d else x)"

definition truthy_number :: "real option \<Rightarrow> bool" where
  "truthy_number v = (case v of None \<Rightarrow> False | Some x \<Rightarrow> x \<noteq> 0)"

definition string_or :: "jsstring option \<Rightarrow> jsstring \<Rightarrow> jsstring" where
  "string_or v d = (case v of None \<Rightarrow> d | Some s \<Rightarrow> if s = [] then d else s)"

section \<open>Analysis Engine (save.service.ts)\<close>

subsection \<open>The decoded save data\<close>

text \<open>
  The argument of \<open>analyzeFactorioSave\<close> has type \<open>any\<close>.  It is modelled by the
  shape the function reads, every substructure and every leaf being optional:
  \<open>None\<close> is a property that is missing.  Reading a property of a missing
  substructure throws a \<open>TypeError\<close>.
\<close>

record technology =
  researched :: bool

record power_production =
  nuclear :: "real option"
  solar :: "real option"
  steam :: "real option"
  production_total :: "real option"

record power_consumption =
  consumption_total :: "real option"

record network_statistics =
  stat_production :: "power_production option"
  stat_consumption :: "power_consumption option"

record production_statistics =
  output_counts :: "(jsstring \<rightharpoonup> real) option"

record player_force =
  technologies :: "(jsstring \<times> technology) list option"
  electric_network_statistics :: "network_statistics option"
  item_production_statistics :: "production_statistics option"
  items :: "(jsstring \<rightharpoonup> real) option"

record force_table =
  player :: "player_force option"

record game_state =
  forces :: "force_table option"
  tick :: "real option"

record entity =
  entity_name :: "jsstring option"
  amount :: "real option"

record surface =
  entities :: "entity list option"

record map_state =
  map_name :: "jsstring option"
  surfaces :: "surface list option"

record version_info =
  asString :: "jsstring option"

record save_data =
  game :: "game_state option"
  map_data :: "map_state option"
  game_version :: "jsstring option"
  header_name :: "jsstring option"
  factorioVersion :: "version_info option"

subsection \<open>The report\<close>

text \<open>
  The string unions of \<open>FactorioAnalysisResult\<close> are datatypes, in the order of
  the source; the keys of its three tables are datatypes as well, and a table is
  the list of its entries in insertion order.
\<close>

datatype stage = Early | Mid | Late | EndGame
datatype power_type = Thermal | Steam | Solar | Nuclear
datatype power_status = Sufficient | Tight | Insufficient
datatype threat_level = Low | Medium | High | Critical
datatype resource_key = IronOre | CopperOre | Coal | CrudeOil
datatype storage_key = IronPlate | CopperPlate | IronGearWheel | CopperCable
datatype machine_key =
  StoneFurnace | SteelFurnace | Assembler1 | Assembler2 | Assembler3 | Lab
  | ElectricMiningDrill | BurnerMiningDrill

text \<open>
  A string field that holds a number: a literal of the source, \<open>x.toFixed(2)\<close>, or
  \<open>x.toFixed(2) + '%'\<close>.
\<close>

datatype formatted = Literal jsstring | Fixed2 jsnum | Fixed2Percent jsnum

text \<open>
  The messages of the report, one constructor for each template of the source
  with the values it interpolates.  \<open>Undefined\<close> is what \<open>threatAlert[0]\<close> reads
  from an empty list.
\<close>

datatype message =
    HeaderOnlyNotice
  | ResourceDepletion resource_key
  | StoneFurnaceUpgrade nat
  | BurnerDrillUpgrade nat
  | LabShortage nat
  | ThreatWarning nat nat threat_level
  | PowerShortage formatted power_type
  | PowerTight formatted
  | LowTechRate formatted
  | LowCoreStorage
  | Undefined

record basic_info =
  saveName :: jsstring
  gameTimeHour :: formatted
  gameVersion :: jsstring

record tech_status =
  researchedCount :: nat
  totalTechCount :: nat
  techRate :: formatted

record develop_info =
  dev_stage :: stage
  score :: jsnum
  techStatus :: tech_status
  mainPowerType :: power_type

record resource_info =
  mined :: "(resource_key \<times> real) list"
  remaining :: "(resource_key \<times> real) list"
  storage :: "(storage_key \<times> real) list"
  coreResAlert :: "message list"

record production_info =
  machines :: "(machine_key \<times> nat) list"
  efficiencyRate :: formatted
  efficiencyAlert :: "message list"

record power_info =
  totalProduction :: int
  totalConsumption :: int
  powerRatio :: formatted
  powerStatus :: power_status

record enemy_info =
  totalCount :: nat
  nestCount :: nat
  threatLevel :: threat_level
  threatAlert :: "message list"

record suggestions =
  urgent :: "message list"
  important :: "message list"
  suggest :: "message list"

record analysis_result =
  fullAnalysisAvailable :: bool
  basic :: basic_info
  develop :: develop_info
  resource :: resource_info
  production :: production_info
  powerInfo :: power_info
  enemy :: enemy_info
  optimizeSuggestions :: suggestions

text \<open>
  The three fallback strings of the source, by their code units: the name of an
  unnamed base, the unknown version, and the dash.
\<close>

definition unnamed_base :: jsstring where
  "unnamed_base = [0x672A, 0x547D, 0x540D, 0x57FA, 0x5730]"

definition unknown_version :: jsstring where
  "unknown_version = [0x672A, 0x77E5, 0x7248, 0x672C]"

definition dash :: jsstring where
  "dash = [0x2014]"

text \<open>\<open>Number(str)\<close> of a formatted field; a literal that is no number reads as NaN.\<close>

definition Number_of :: "formatted \<Rightarrow> jsnum" where
  "Number_of f =
     (case f of Fixed2 x \<Rightarrow> Number_of_toFixed2 x | Fixed2Percent x \<Rightarrow> Number_of_toFixed2 x
      | Literal s \<Rightarrow> NaN)"

subsection \<open>Header-only analysis\<close>

text \<open>
  \<open>buildHeaderOnlyAnalysis(saveData ?? {})\<close>: the argument is the save data when
  there is one; \<open>header.name ?? ...\<close> and \<open>header.factorioVersion?.asString ?? ...\<close>
  fall back only when the property is missing.
\<close>

definition buildHeaderOnlyAnalysis :: "save_data option \<Rightarrow> analysis_result" where
  "buildHeaderOnlyAnalysis header =
     \<lparr>fullAnalysisAvailable = False,
      basic = \<lparr>
        saveName = (case Option.bind header header_name of None \<Rightarrow> unnamed_base | Some n \<Rightarrow> n),
        gameTimeHour = Literal dash,
        gameVersion =
          (case Option.bind (Option.bind header factorioVersion) asString of
             None \<Rightarrow> unknown_version | Some v \<Rightarrow> v)\<rparr>,
      develop = \<lparr>dev_stage = Early, score = Fin 0,
        techStatus = \<lparr>researchedCount = 0, totalTechCount = 0, techRate = Literal (ascii ''0.00%'')\<rparr>,
        mainPowerType = Thermal\<rparr>,
      resource = \<lparr>mined = [], remaining = [], storage = [], coreResAlert = []\<rparr>,
      production = \<lparr>machines = [], efficiencyRate = Literal dash, efficiencyAlert = []\<rparr>,
      powerInfo = \<lparr>totalProduction = 0, totalConsumption = 0, powerRatio = Literal dash,
        powerStatus = Sufficient\<rparr>,
      enemy = \<lparr>totalCount = 0, nestCount = 0, threatLevel = Low, threatAlert = []\<rparr>,
      optimizeSuggestions = \<lparr>urgent = [], important = [], suggest = [] @ [HeaderOnlyNotice]\<rparr>\<rparr>"

subsection \<open>Full analysis\<close>

text \<open>
  The mode decision \<^verbatim>\<open>!saveData?.game || !saveData?.map?.surfaces?.[0]\<close>: the full
  analysis runs on the game state, the map state and the first surface.
\<close>

definition full_snapshot ::
  "save_data option \<Rightarrow> (save_data \<times> game_state \<times> map_state \<times> surface) option" where
  "full_snapshot saveData =
     (case saveData of
        None \<Rightarrow> None
      | Some s \<Rightarrow>
          (case game s of
             None \<Rightarrow> None
           | Some g \<Rightarrow>
               (case map_data s of
                  None \<Rightarrow> None
                | Some m \<Rightarrow>
                    (case surfaces m of
                       None \<Rightarrow> None
                     | Some [] \<Rightarrow> None
                     | Some (s0 # rest) \<Rightarrow> Some (s, g, m, s0)))))"

text \<open>\<^verbatim>\<open>entities.filter(e => e.name === n).length\<close>\<close>

definition count_named :: "entity list \<Rightarrow> jsstring \<Rightarrow> nat" where
  "count_named ents n = length (filter (\<lambda>e. entity_name e = Some n) ents)"

text \<open>Dimension 1: technology status, main power type, stage and score.\<close>

definition develop_section ::
  "jsnum \<Rightarrow> (jsstring \<times> technology) list \<Rightarrow> power_production \<Rightarrow> develop_info" where
  "develop_section gameTime techs powerProduction =
     (let techAll = map fst techs;
          techResearched = map fst (filter (\<lambda>t. researched (snd t)) techs);
          ratio = js_div (Fin (of_nat (length techResearched))) (Fin (of_nat (length techAll)));
          techCount = length techResearched;
          techScore = Math_min (Fin 50) (js_mul ratio (Fin 50));
          stageScore =
            (if js_lt gameTime (Fin 10) then js_mul (js_div gameTime (Fin 10)) (Fin 50) else Fin 50)
      in \<lparr>dev_stage =
             (if js_lt gameTime (Fin 10) \<and> techCount < 30 then Early
              else if js_lt gameTime (Fin 50) \<and> techCount < 80 then Mid
              else if js_lt gameTime (Fin 200) \<and> techCount < 150 then Late
              else EndGame),
          score = Math_min (Fin 100) (Math_round (js_add techScore stageScore)),
          techStatus = \<lparr>researchedCount = length techResearched, totalTechCount = length techAll,
            techRate = Fixed2Percent (js_mul ratio (Fin 100))\<rparr>,
          mainPowerType =
             (if truthy_number (nuclear powerProduction) then Nuclear
              else if truthy_number (solar powerProduction) then Solar
              else if truthy_number (steam powerProduction) then Steam
              else Thermal)\<rparr>)"

text \<open>Dimension 2: the core resources with the keys of the report.\<close>

definition coreResources :: "(resource_key \<times> jsstring) list" where
  "coreResources =
     [(IronOre, ascii ''iron-ore''), (CopperOre, ascii ''copper-ore''), (Coal, ascii ''coal''),
      (CrudeOil, ascii ''crude-oil'')]"

definition lookup_number :: "('k \<times> real) list \<Rightarrow> 'k \<Rightarrow> jsnum" where
  "lookup_number kvs k = (case map_of kvs k of None \<Rightarrow> NaN | Some v \<Rightarrow> Fin v)"

definition resource_section ::
  "(jsstring \<rightharpoonup> real) \<Rightarrow> (jsstring \<rightharpoonup> real) \<Rightarrow> entity list \<Rightarrow> resource_info" where
  "resource_section outputCounts itemCounts ents =
     (let minedMap = map (\<lambda>(k, n). (k, number_or (outputCounts n) 0)) coreResources;
          remainingMap =
            map (\<lambda>(k, n).
                  (k, foldl (\<lambda>sum e. sum + (case amount e of None \<Rightarrow> 0 | Some a \<Rightarrow> a)) 0
                        (filter (\<lambda>e. entity_name e = Some n) ents))) coreResources;
          storageMap =
            [(IronPlate, number_or (itemCounts (ascii ''iron-plate'')) 0),
             (CopperPlate, number_or (itemCounts (ascii ''copper-plate'')) 0),
             (IronGearWheel, number_or (itemCounts (ascii ''iron-gear-wheel'')) 0),
             (CopperCable, number_or (itemCounts (ascii ''copper-cable'')) 0)]
      in \<lparr>mined = minedMap, remaining = remainingMap, storage = storageMap,
          coreResAlert =
            map (\<lambda>(k, n). ResourceDepletion k)
              (filter (\<lambda>(k, n). js_lt (Fin 0) (lookup_number minedMap k) \<and>
                                js_lt (js_div (lookup_number remainingMap k) (lookup_number minedMap k))
                                      (Fin (1 / 10)))
                 coreResources)\<rparr>)"

text \<open>
  Dimension 3: machine counts and the efficiency rate,
  \<^verbatim>\<open>totalMachine > 0 ? ((totalEffective / totalMachine) * 100).toFixed(2) + '%' : '100%'\<close>.
\<close>

definition production_section :: "stage \<Rightarrow> entity list \<Rightarrow> production_info" where
  "production_section stg ents =
     (let stone = count_named ents (ascii ''stone-furnace'');
          steel = count_named ents (ascii ''steel-furnace'');
          labs = count_named ents (ascii ''lab'');
          electric = count_named ents (ascii ''electric-mining-drill'');
          burner = count_named ents (ascii ''burner-mining-drill'');
          totalFurnace = stone + steel;
          effectiveFurnace = steel;
          totalMining = electric + burner;
          effectiveMining = electric;
          totalEffective = effectiveFurnace + effectiveMining;
          totalMachine = totalFurnace + totalMining
      in \<lparr>machines =
            [(StoneFurnace, stone), (SteelFurnace, steel),
             (Assembler1, count_named ents (ascii ''assembling-machine-1'')),
             (Assembler2, count_named ents (ascii ''assembling-machine-2'')),
             (Assembler3, count_named ents (ascii ''assembling-machine-3'')),
             (Lab, labs), (ElectricMiningDrill, electric), (BurnerMiningDrill, burner)],
          efficiencyRate =
            (if totalMachine > 0
             then Fixed2Percent
                    (js_mul (js_div (Fin (of_nat totalEffective)) (Fin (of_nat totalMachine))) (Fin 100))
             else Literal (ascii ''100%'')),
          efficiencyAlert =
            (if stone > 0 then [StoneFurnaceUpgrade stone] else []) @
            (if burner > 0 then [BurnerDrillUpgrade burner] else []) @
            (if labs < 5 \<and> stg = Early then [LabShortage labs] else [])\<rparr>)"

text \<open>
  Dimension 4: \<^verbatim>\<open>Math.round(powerProduction.total || 0)\<close>,
  \<^verbatim>\<open>Math.round(playerForce.electric_network_statistics.consumption.total || 1)\<close>,
  the ratio printed with two decimals, and the status read from the printed ratio.
\<close>

definition power_section :: "power_production \<Rightarrow> power_consumption \<Rightarrow> power_info" where
  "power_section powerProduction powerConsumption =
     (let tp = round_half_up (number_or (production_total powerProduction) 0);
          tc = round_half_up (number_or (consumption_total powerConsumption) 1);
          ratio = js_div (Fin (of_int tp)) (Fin (of_int tc));
          powerRatioNum = Number_of_toFixed2 ratio
      in \<lparr>totalProduction = tp, totalConsumption = tc, powerRatio = Fixed2 ratio,
          powerStatus =
            (if js_ge powerRatioNum (Fin (11 / 10)) then Sufficient
             else if js_ge powerRatioNum (Fin (9 / 10)) then Tight
             else Insufficient)\<rparr>)"

text \<open>Dimension 5: hostile units, nests, threat level and the alert.\<close>

definition enemyTypes :: "jsstring list" where
  "enemyTypes =
     [ascii ''small-biter'', ascii ''medium-biter'', ascii ''big-biter'', ascii ''behemoth-biter'',
      ascii ''small-spitter'', ascii ''medium-spitter'', ascii ''big-spitter'',
      ascii ''behemoth-spitter'']"

definition enemy_section :: "entity list \<Rightarrow> enemy_info" where
  "enemy_section ents =
     (let total = length (filter (\<lambda>e. case entity_name e of None \<Rightarrow> False
                                        | Some n \<Rightarrow> n \<in> set enemyTypes) ents);
          nests = length (filter (\<lambda>e. entity_name e = Some (ascii ''biter-nest'') \<or>
                                       entity_name e = Some (ascii ''spitter-nest'')) ents);
          level = (if nests = 0 then Low else if nests < 10 then Medium
                   else if nests < 30 then High else Critical)
      in \<lparr>totalCount = total, nestCount = nests, threatLevel = level,
          threatAlert =
            (if level = High \<or> level = Critical then [ThreatWarning nests total level] else [])\<rparr>)"

text \<open>The three buckets of suggestions.\<close>

definition first_or_undefined :: "message list \<Rightarrow> message" where
  "first_or_undefined xs = (case xs of [] \<Rightarrow> Undefined | x # rest \<Rightarrow> x)"

definition suggestion_section ::
  "develop_info \<Rightarrow> resource_info \<Rightarrow> production_info \<Rightarrow> power_info \<Rightarrow> enemy_info \<Rightarrow> suggestions" where
  "suggestion_section dev res prd pow en =
     \<lparr>urgent =
        (if powerStatus pow = Insufficient
         then [PowerShortage (powerRatio pow) (mainPowerType dev)] else []) @
        coreResAlert res @
        (if threatLevel en = Critical then [first_or_undefined (threatAlert en)] else []),
      important =
        (if powerStatus pow = Tight then [PowerTight (powerRatio pow)] else []) @
        efficiencyAlert prd @
        (if threatLevel en = High then [first_or_undefined (threatAlert en)] else []),
      suggest =
        (if js_lt (Number_of (techRate (techStatus dev))) (Fin 50)
         then [LowTechRate (techRate (techStatus dev))] else []) @
        (if js_lt (js_add (lookup_number (storage res) IronPlate)
                          (lookup_number (storage res) CopperPlate)) (Fin 1000)
         then [LowCoreStorage] else [])\<rparr>"

text \<open>The report of the full analysis, from the substructures it reads.\<close>

definition full_analysis ::
  "jsstring option \<Rightarrow> jsstring option \<Rightarrow> real option \<Rightarrow> entity list \<Rightarrow>
   (jsstring \<times> technology) list \<Rightarrow> power_production \<Rightarrow> power_consumption \<Rightarrow>
   (jsstring \<rightharpoonup> real) \<Rightarrow> (jsstring \<rightharpoonup> real) \<Rightarrow> analysis_result" where
  "full_analysis mapName version gameTick ents techs powerProduction powerConsumption
     outputCounts itemCounts =
     (let hours = js_div (js_div (case gameTick of None \<Rightarrow> NaN | Some t \<Rightarrow> Fin t) (Fin 60)) (Fin 60);
          basicInfo = \<lparr>saveName = string_or mapName unnamed_base, gameTimeHour = Fixed2 hours,
                       gameVersion = string_or version unknown_version\<rparr>;
          gameTime = Number_of (gameTimeHour basicInfo);
          dev = develop_section gameTime techs powerProduction;
          res = resource_section outputCounts itemCounts ents;
          prd = production_section (dev_stage dev) ents;
          pow = power_section powerProduction powerConsumption;
          en = enemy_section ents
      in \<lparr>fullAnalysisAvailable = True, basic = basicInfo, develop = dev, resource = res,
          production = prd, powerInfo = pow, enemy = en,
          optimizeSuggestions = suggestion_section dev res prd pow en\<rparr>)"

text \<open>
  \<open>analyzeFactorioSave\<close>.  \<open>None\<close> is a thrown \<open>TypeError\<close>: each binding below reads
  a property of a substructure that has to be there (\<open>gameData.forces.player\<close>,
  \<open>Object.values(mapData.entities)\<close>, \<open>Object.keys(playerForce.technologies)\<close>,
  \<open>playerForce.electric_network_statistics.production\<close> and \<open>.consumption.total\<close>,
  \<open>playerForce.item_production_statistics.output_counts[...]\<close>,
  \<open>playerForce.items[...]\<close>).
\<close>

definition analyzeFactorioSave :: "save_data option \<Rightarrow> analysis_result option" where
  "analyzeFactorioSave saveData =
     (case full_snapshot saveData of
        None \<Rightarrow> Some (buildHeaderOnlyAnalysis saveData)
      | Some (s, gameData, mapState, mapData) \<Rightarrow>
          do {
            forceTable \<leftarrow> forces gameData;
            ents \<leftarrow> entities mapData;
            playerForce \<leftarrow> player forceTable;
            techs \<leftarrow> technologies playerForce;
            stats \<leftarrow> electric_network_statistics playerForce;
            powerProduction \<leftarrow> stat_production stats;
            itemStats \<leftarrow> item_production_statistics playerForce;
            outputCounts \<leftarrow> output_counts itemStats;
            itemCounts \<leftarrow> items playerForce;
            powerConsumption \<leftarrow> stat_consumption stats;
            Some (full_analysis (map_name mapState) (game_version s) (tick gameData) ents techs
                    powerProduction powerConsumption outputCounts itemCounts)
          })"

section \<open>Notions used in the statements\<close>

text \<open>Every deletion the runtime is asked for succeeds.\<close>

definition all_unlinks_succeed :: "runtime \<Rightarrow> bool" where
  "all_unlinks_succeed rt \<longleftrightarrow> (\<forall>n. \<not> unlink_fails rt n)"

text \<open>The entities of the first surface, as the full analysis reads them.\<close>

definition first_surface_entities :: "save_data option \<Rightarrow> entity list" where
  "first_surface_entities saveData =
     (case full_snapshot saveData of
        None \<Rightarrow> []
      | Some (s, g, m, s0) \<Rightarrow> (case entities s0 of None \<Rightarrow> [] | Some ents \<Rightarrow> ents))"

definition is_nest :: "entity \<Rightarrow> bool" where
  "is_nest e \<longleftrightarrow>
     entity_name e = Some (ascii ''biter-nest'') \<or> entity_name e = Some (ascii ''spitter-nest'')"

definition machine_count :: "analysis_result \<Rightarrow> machine_key \<Rightarrow> nat" where
  "machine_count r k = (case map_of (machines (production r)) k of None \<Rightarrow> 0 | Some n \<Rightarrow> n)"





section \<open>Example inputs\<close>

text \<open>A runtime without faults, and one that cannot delete \<open>a.zip\<close>.\<close>

definition quiet_runtime :: runtime where
  "quiet_runtime =
     \<lparr>randomUUID = ascii ''0b5e'', extname = (\<lambda>n. dropWhile (\<lambda>c. c \<noteq> 0x2E) n), now = 100,
      mkdir_fails = False, readdir_fails = False, stat_fails = (\<lambda>n. False),
      unlink_fails = (\<lambda>n. False), writeFile_fails = False\<rparr>"

definition stubborn_runtime :: runtime where
  "stubborn_runtime = quiet_runtime\<lparr>unlink_fails := (\<lambda>n. n = ascii ''a.zip'')\<rparr>"

definition file_a :: stored_file where
  "file_a = \<lparr>file_name = ascii ''a.zip'', isFile = True, mtimeMs = 1, file_bytes = [1]\<rparr>"

definition file_b :: stored_file where
  "file_b = \<lparr>file_name = ascii ''b.zip'', isFile = True, mtimeMs = 3, file_bytes = [2]\<rparr>"

definition file_c :: stored_file where
  "file_c = \<lparr>file_name = ascii ''c.zip'', isFile = True, mtimeMs = 2, file_bytes = [3]\<rparr>"

definition sub_dir :: stored_file where
  "sub_dir = \<lparr>file_name = ascii ''tmp'', isFile = False, mtimeMs = 0, file_bytes = []\<rparr>"

definition text_plain_file :: upload_file where
  "text_plain_file =
     \<lparr>originalname = ascii ''a.txt'', mimetype = ascii ''text/plain'', file_size = 5,
      buffer = [1, 2, 3, 4, 5]\<rparr>"

definition zip_file :: upload_file where
  "zip_file =
     \<lparr>originalname = ascii ''base.zip'', mimetype = ascii ''application/zip'', file_size = 3,
      buffer = [1, 2, 3]\<rparr>"

text \<open>
  A complete snapshot with \<open>n\<close> technologies, all researched, the given tick and
  power totals and the given entities; and the report the analysis gives for it.
\<close>

definition researched_technologies :: "nat \<Rightarrow> (jsstring \<times> technology) list" where
  "researched_technologies n = map (\<lambda>i. (replicate (Suc i) 0x74, \<lparr>researched = True\<rparr>)) [0..<n]"

definition sample_player :: "nat \<Rightarrow> real option \<Rightarrow> real option \<Rightarrow> player_force" where
  "sample_player n produced consumed =
     \<lparr>technologies = Some (researched_technologies n),
      electric_network_statistics = Some
        \<lparr>stat_production =
           Some \<lparr>nuclear = None, solar = None, steam = Some 5, production_total = produced\<rparr>,
         stat_consumption = Some \<lparr>consumption_total = consumed\<rparr>\<rparr>,
      item_production_statistics = Some \<lparr>output_counts = Some Map.empty\<rparr>,
      items = Some Map.empty\<rparr>"

definition sample_save :: "real option \<Rightarrow> player_force \<Rightarrow> entity list \<Rightarrow> save_data" where
  "sample_save t pf ents =
     \<lparr>game = Some \<lparr>forces = Some \<lparr>player = Some pf\<rparr>, tick = t\<rparr>,
      map_data = Some \<lparr>map_name = Some (ascii ''base''), surfaces = Some [\<lparr>entities = Some ents\<rparr>]\<rparr>,
      game_version = None, header_name = None, factorioVersion = None\<rparr>"

definition sample_report ::
  "real option \<Rightarrow> nat \<Rightarrow> real option \<Rightarrow> real option \<Rightarrow> entity list \<Rightarrow> analysis_result" where
  "sample_report t n produced consumed ents =
     full_analysis (Some (ascii ''base'')) None t ents (researched_technologies n)
       \<lparr>nuclear = None, solar = None, steam = Some 5, production_total = produced\<rparr>
       \<lparr>consumption_total = consumed\<rparr> Map.empty Map.empty"


definition header_save :: save_data where
  "header_save =
     \<lparr>game = None, map_data = None, game_version = None, header_name = Some (ascii ''my base''),
      factorioVersion = Some \<lparr>asString = Some (ascii ''1.1.100'')\<rparr>\<rparr>"

definition biter_nest :: entity where
  "biter_nest = \<lparr>entity_name = Some (ascii ''biter-nest''), amount = None\<rparr>"

definition steel_furnace :: entity where
  "steel_furnace = \<lparr>entity_name = Some (ascii ''steel-furnace''), amount = None\<rparr>"

definition stone_furnace :: entity where
  "stone_furnace = \<lparr>entity_name = Some (ascii ''stone-furnace''), amount = None\<rparr>"

section \<open>Properties of the Archive Locator\<close>

lemma ascii_simps [simp]:
  "ascii [] = []"
  "ascii (c # cs) = of_char c # ascii cs"
  by (simp_all add: ascii_def)

lemma entry_matches_iff_suffix:
  "entry_matches f \<longleftrightarrow> suffix LEVEL_INIT_NAME (normalize_separators (path f))"
  by (auto simp: entry_matches_def Let_def)

lemma spec_entry_matches_imp_entry_matches:
  "spec_entry_matches f \<Longrightarrow> entry_matches f"
  by (auto simp: spec_entry_matches_def entry_matches_def Let_def dest: suffix_ConsD)

lemma locator_spec_examples:
  "entry_matches \<lparr>path = Some (ascii ''level-init.dat''), content = c\<rparr>"
  "entry_matches \<lparr>path = Some (ascii ''x/level-init.dat''), content = c\<rparr>"
  "entry_matches \<lparr>path = Some (ascii ''a/b/level-init.dat''), content = c\<rparr>"
  "entry_matches \<lparr>path = Some (ascii ''a'' @ [0x5C] @ ascii ''level-init.dat''), content = c\<rparr>"
  "\<not> entry_matches \<lparr>path = Some (ascii ''level-init.dat.bak''), content = c\<rparr>"
  by (simp_all add: entry_matches_def normalize_separators_def LEVEL_INIT_NAME_def
      suffix_to_prefix)

text \<open>
  Claim C1.  The specification matches an entry only when the basename is the
  whole path or is preceded by a separator, and returns the first such entry.
  The source tests \<open>endsWith\<close> on the bare basename, so a path such as
  \<open>save/old-level-init.dat\<close>, which only ends with the characters of the basename,
  is matched and, standing first, is returned in place of the header entry.
\<close>

theorem findLevelInitInZip_matches_bare_suffix:
  "findLevelInitInZip
     [\<lparr>path = Some (ascii ''save/old-level-init.dat''), content = [1]\<rparr>,
      \<lparr>path = Some (ascii ''save/level-init.dat''), content = [2]\<rparr>]
   = Some \<lparr>path = Some (ascii ''save/old-level-init.dat''), content = [1]\<rparr>
   \<and> \<not> spec_entry_matches \<lparr>path = Some (ascii ''save/old-level-init.dat''), content = [1]\<rparr>
   \<and> spec_entry_matches \<lparr>path = Some (ascii ''save/level-init.dat''), content = [2]\<rparr>"
  by (simp add: findLevelInitInZip_def entry_matches_def spec_entry_matches_def
      normalize_separators_def LEVEL_INIT_NAME_def suffix_to_prefix)

section \<open>Properties of the Filename Normalizer\<close>









text \<open>
  The re-reading as Latin-1 is not idempotent either: the three code units
  U+00C3 U+00A9 U+00FF form a valid string that matches the garbled heuristic;
  its repair still matches it and is repaired again, to something else.
\<close>

lemma decodeFileName_garbled_example:
  "decodeFileName [0xC3, 0xA9, 0xFF] = [0xE9, 0xFFFD]"
  "decodeFileName [0xE9, 0xFFFD] = [0xFFFD, 0xFFFD]"
  by (simp_all add: decodeFileName_def isValidUTF8_def Buffer_toString_utf8_def Buffer_from_utf8_def
      Buffer_from_latin1_def utf8_encode_code_point_def utf16_encode_code_point_def
      looksLikeGarbled_def containsChinese_def garbledPattern_def Let_def)




section \<open>Properties of the Storage Manager\<close>

lemma unlink_ok:
  "\<not> unlink_fails rt (file_name f) \<Longrightarrow> f \<in> set entries \<Longrightarrow> isFile f \<Longrightarrow>
   unlink rt (file_name f) entries = Inr (filter (\<lambda>e. file_name e \<noteq> file_name f) entries)"
  by (auto simp: unlink_def)

lemma filter_name_distinct:
  "distinct (map file_name entries) \<Longrightarrow> f \<in> set entries \<Longrightarrow>
   filter (\<lambda>e. file_name e \<noteq> file_name f) entries = filter (\<lambda>e. e \<noteq> f) entries"
  by (rule filter_cong) (auto simp: distinct_map inj_on_def)

text \<open>When every deletion succeeds the loop removes exactly the files it was given.\<close>

lemma prune_loop_all_ok:
  "\<forall>f \<in> set toRemove. \<not> unlink_fails rt (file_name f) \<and> isFile f \<Longrightarrow>
   distinct (map file_name entries) \<Longrightarrow> set toRemove \<subseteq> set entries \<Longrightarrow> distinct toRemove \<Longrightarrow>
   prune_loop rt toRemove entries = filter (\<lambda>e. e \<notin> set toRemove) entries"
proof (induction toRemove arbitrary: entries)
  case Nil
  then show ?case by simp
next
  case (Cons f fs)
  let ?es = "filter (\<lambda>e. e \<noteq> f) entries"
  have u: "unlink rt (file_name f) entries = Inr ?es"
    using Cons.prems unlink_ok [of rt f entries] filter_name_distinct [of entries f] by simp
  have d: "distinct (map file_name ?es)"
    using Cons.prems(2) by (simp add: distinct_map_filter)
  have s: "set fs \<subseteq> set ?es" using Cons.prems(3,4) by auto
  have "prune_loop rt fs ?es = filter (\<lambda>e. e \<notin> set fs) ?es"
    using Cons.IH [OF _ d s] Cons.prems by simp
  then show ?case using u by (simp add: conj_commute)
qed

lemma filter_not_in_take:
  assumes "distinct ys"
  shows "filter (\<lambda>e. e \<notin> set (take k ys)) ys = drop k ys"
proof -
  let ?P = "\<lambda>e. e \<notin> set (take k ys)"
  have "set (take k ys) \<inter> set (drop k ys) = {}"
    using assms by (metis append_take_drop_id distinct_append)
  then have keep: "filter ?P (drop k ys) = drop k ys"
    by (auto simp: filter_id_conv)
  have gone: "filter ?P (take k ys) = []"
    by (simp add: filter_empty_conv)
  have "filter ?P ys = filter ?P (take k ys) @ filter ?P (drop k ys)"
    by (metis append_take_drop_id filter_append)
  then show ?thesis using keep gone by simp
qed

lemma survivors_mset:
  assumes "distinct xs"
  shows "mset (filter (\<lambda>e. e \<notin> set (take k (sort_key f xs))) xs) = mset (drop k (sort_key f xs))"
proof -
  have "mset (filter (\<lambda>e. e \<notin> set (take k (sort_key f xs))) xs)
        = filter_mset (\<lambda>e. e \<notin> set (take k (sort_key f xs))) (mset (sort_key f xs))"
    by simp
  also have "\<dots> = mset (filter (\<lambda>e. e \<notin> set (take k (sort_key f xs))) (sort_key f xs))"
    by (simp only: mset_filter)
  also have "\<dots> = mset (drop k (sort_key f xs))"
    using assms by (simp add: filter_not_in_take)
  finally show ?thesis .
qed

lemma sorted_take_drop_le:
  assumes "sorted (map f ys)" and "a \<in> set (take k ys)" and "b \<in> set (drop k ys)"
  shows "f a \<le> f b"
proof -
  have "sorted (map f (take k ys) @ map f (drop k ys))"
    using assms(1) by (metis append_take_drop_id map_append)
  then show ?thesis using assms(2,3) by (auto simp: sorted_append)
qed

text \<open>Without a fault of the file system the retention call completes.\<close>

lemma pruneOldFilesIfExceed_completes:
  "\<not> mkdir_fails rt \<Longrightarrow> \<not> readdir_fails rt \<Longrightarrow> \<forall>n. \<not> stat_fails rt n \<Longrightarrow>
   fst (pruneOldFilesIfExceed rt maxCount dir) = Inr ()"
  by (simp add: pruneOldFilesIfExceed_def ensureUploadDirExists_def Let_def split: option.splits)

lemma example_files_simps:
  "isFile file_a" "isFile file_b" "isFile file_c" "\<not> isFile sub_dir"
  "mtimeMs file_a = 1" "mtimeMs file_b = 3" "mtimeMs file_c = 2"
  "file_name file_a = ascii ''a.zip''" "file_name file_b = ascii ''b.zip''"
  "file_name file_c = ascii ''c.zip''" "file_name sub_dir = ascii ''tmp''"
  by (simp_all add: file_a_def file_b_def file_c_def sub_dir_def)

lemma prune_example:
  "pruneOldFilesIfExceed quiet_runtime 2 (Some [file_a, sub_dir, file_b, file_c])
     = (Inr (), Some [sub_dir, file_b, file_c])"
  by (simp add: pruneOldFilesIfExceed_def ensureUploadDirExists_def Let_def example_files_simps
      quiet_runtime_def unlink_def)

text \<open>
  Claim C2, as amended.  For every cap and every storage root with distinct names,
  when the retention call completes and every deletion it asks for succeeds, the
  number of stored files is \<open>min(priorCount, maxCount)\<close>, the survivors are the last
  \<open>maxCount\<close> files in order of modification time (no removed file is newer than a
  survivor), and nothing changes when \<open>priorCount \<le> maxCount\<close>.
\<close>

theorem pruneOldFilesIfExceed_keeps_newest:
  assumes wf: "well_formed_dir dir"
    and ok: "all_unlinks_succeed rt"
    and run: "pruneOldFilesIfExceed rt maxCount dir = (Inr (), dir')"
  shows "length (stored_files dir') = min (length (stored_files dir)) maxCount \<and>
         mset (stored_files dir') =
           mset (drop (length (stored_files dir) - maxCount) (sort_key mtimeMs (stored_files dir))) \<and>
         (\<forall>a \<in> set (stored_files dir) - set (stored_files dir'). \<forall>b \<in> set (stored_files dir').
            mtimeMs a \<le> mtimeMs b) \<and>
         (length (stored_files dir) \<le> maxCount \<longrightarrow> stored_files dir' = stored_files dir)"
proof -
  obtain entries where en: "ensureUploadDirExists rt dir = Inr entries"
    using run by (auto simp: pruneOldFilesIfExceed_def split: sum.splits)
  have sf: "stored_files dir = filter isFile entries"
    using en by (auto simp: ensureUploadDirExists_def stored_files_def split: option.splits if_splits)
  have dn: "distinct (map file_name entries)"
    using en wf by (auto simp: ensureUploadDirExists_def well_formed_dir_def split: option.splits if_splits)
  let ?files = "filter isFile entries"
  let ?k = "length ?files - maxCount"
  let ?sorted = "sort_key mtimeMs ?files"
  show ?thesis
  proof (cases "length ?files \<le> maxCount")
    case True
    then have "dir' = Some entries"
      using run en by (auto simp: pruneOldFilesIfExceed_def Let_def split: if_splits)
    then show ?thesis using True sf by (simp add: stored_files_def)
  next
    case False
    let ?rm = "take ?k ?sorted"
    have d': "dir' = Some (prune_loop rt ?rm entries)"
      using run en False by (auto simp: pruneOldFilesIfExceed_def Let_def split: if_splits)
    have de: "distinct entries" using dn by (rule distinct_map [THEN iffD1, THEN conjunct1])
    have df: "distinct ?files" using de by simp
    have sub: "set ?rm \<subseteq> set ?files" by (metis set_sort set_take_subset)
    have "prune_loop rt ?rm entries = filter (\<lambda>e. e \<notin> set ?rm) entries"
    proof (rule prune_loop_all_ok)
      show "\<forall>f\<in>set ?rm. \<not> unlink_fails rt (file_name f) \<and> isFile f"
        using ok sub by (auto simp: all_unlinks_succeed_def)
      show "distinct (map file_name entries)" by (rule dn)
      show "set ?rm \<subseteq> set entries" using sub by auto
      show "distinct ?rm" using df by (simp add: distinct_take)
    qed
    then have st: "stored_files dir' = filter (\<lambda>e. e \<notin> set ?rm) ?files"
      by (simp add: d' stored_files_def conj_commute)
    have ms: "mset (stored_files dir') = mset (drop ?k ?sorted)"
      unfolding st using df by (rule survivors_mset)
    have len: "length (stored_files dir') = min (length ?files) maxCount"
    proof -
      have "length (stored_files dir') = size (mset (drop ?k ?sorted))" using ms by (metis size_mset)
      then show ?thesis using False by simp
    qed
    have ord: "\<forall>a \<in> set ?files - set (stored_files dir'). \<forall>b \<in> set (stored_files dir').
                 mtimeMs a \<le> mtimeMs b"
    proof (intro ballI)
      fix a b
      assume a: "a \<in> set ?files - set (stored_files dir')" and b: "b \<in> set (stored_files dir')"
      have "a \<in> set ?rm" using a st by auto
      moreover have "b \<in> set (drop ?k ?sorted)" using b ms by (metis set_mset_mset)
      moreover have "sorted (map mtimeMs ?sorted)" by (rule sorted_sort_key)
      ultimately show "mtimeMs a \<le> mtimeMs b" by (rule sorted_take_drop_le [rotated])
    qed
    show ?thesis using len ms ord False by (simp add: sf)
  qed
qed

theorem pruneOldFilesIfExceed_keeps_newest_witness:
  "well_formed_dir (Some [file_a, sub_dir, file_b, file_c]) \<and>
   all_unlinks_succeed quiet_runtime \<and>
   pruneOldFilesIfExceed quiet_runtime 2 (Some [file_a, sub_dir, file_b, file_c])
     = (Inr (), Some [sub_dir, file_b, file_c]) \<and>
   stored_files (Some [sub_dir, file_b, file_c]) = [file_b, file_c] \<and>
   length (stored_files (Some [sub_dir, file_b, file_c])) = 2"
proof -
  have w: "well_formed_dir (Some [file_a, sub_dir, file_b, file_c])"
    by (simp add: well_formed_dir_def example_files_simps)
  have u: "all_unlinks_succeed quiet_runtime"
    by (simp add: all_unlinks_succeed_def quiet_runtime_def)
  have s: "stored_files (Some [file_a, sub_dir, file_b, file_c]) = [file_a, file_b, file_c]"
    by (simp add: stored_files_def example_files_simps)
  have s': "stored_files (Some [sub_dir, file_b, file_c]) = [file_b, file_c]"
    by (simp add: stored_files_def example_files_simps)
  show ?thesis
    using w u prune_example s' pruneOldFilesIfExceed_keeps_newest [OF w u prune_example]
    by (simp add: s)
qed

text \<open>
  The claim as stated fails when a deletion fails: the failure is caught and
  logged, the call completes, and three files remain under a cap of two.
\<close>

theorem pruneOldFilesIfExceed_failed_unlink_counterexample:
  "well_formed_dir (Some [file_a, sub_dir, file_b, file_c]) \<and>
   pruneOldFilesIfExceed stubborn_runtime 2 (Some [file_a, sub_dir, file_b, file_c])
     = (Inr (), Some [file_a, sub_dir, file_b, file_c]) \<and>
   length (stored_files (Some [file_a, sub_dir, file_b, file_c])) = 3 \<and>
   min (length (stored_files (Some [file_a, sub_dir, file_b, file_c]))) 2 = 2"
  by (simp add: well_formed_dir_def pruneOldFilesIfExceed_def ensureUploadDirExists_def Let_def
      example_files_simps stubborn_runtime_def quiet_runtime_def unlink_def stored_files_def)

section \<open>Properties of the upload service\<close>

text \<open>An accepted upload is written under the generated name.\<close>

lemma uploadFile_accepts_zip:
  "snd (uploadFile quiet_runtime zip_file None) =
     Some [\<lparr>file_name = ascii ''0b5e.zip'', isFile = True, mtimeMs = 100, file_bytes = [1, 2, 3]\<rparr>]"
  by (simp add: uploadFile_def quiet_runtime_def zip_file_def allowedMimeTypes_def maxSize_def
      saveFileAsync_def ensureUploadDirExists_def writeFile_def Let_def decodeFileName_def
      isValidUTF8_def Buffer_toString_utf8_def Buffer_from_utf8_def looksLikeGarbled_def
      garbledPattern_def utf8_encode_code_point_def utf16_encode_code_point_def)

text \<open>
  Claim C8.  For every uploaded file whose mime type is outside the allow-list or
  whose size exceeds 200 MiB, \<open>uploadFile\<close> returns a failure with status
  \<open>BAD_REQUEST\<close> and leaves the storage root as it was: nothing is written, and a
  missing storage root is not even created.
\<close>

theorem uploadFile_rejects_without_write:
  "mimetype file \<notin> set allowedMimeTypes \<or> file_size file > 200 * 1024 * 1024 \<Longrightarrow>
   is_failure (fst (uploadFile rt file dir)) BAD_REQUEST \<and> snd (uploadFile rt file dir) = dir"
  by (auto simp: uploadFile_def is_failure_def maxSize_def)

theorem uploadFile_rejects_without_write_witness:
  "mimetype text_plain_file \<notin> set allowedMimeTypes \<and>
   is_failure (fst (uploadFile quiet_runtime text_plain_file None)) BAD_REQUEST \<and>
   snd (uploadFile quiet_runtime text_plain_file None) = None"
proof -
  have h: "mimetype text_plain_file \<notin> set allowedMimeTypes \<or>
           file_size text_plain_file > 200 * 1024 * 1024"
    by (simp add: text_plain_file_def allowedMimeTypes_def)
  have m: "mimetype text_plain_file \<notin> set allowedMimeTypes"
    by (simp add: text_plain_file_def allowedMimeTypes_def)
  show ?thesis
    using m uploadFile_rejects_without_write [OF h, of quiet_runtime None] by simp
qed

section \<open>Properties of the Analysis Engine\<close>

lemma full_snapshot_None_iff:
  "full_snapshot saveData = None \<longleftrightarrow>
     (case saveData of None \<Rightarrow> True
      | Some s \<Rightarrow> game s = None \<or>
          (case map_data s of None \<Rightarrow> True
           | Some m \<Rightarrow> (case surfaces m of None \<Rightarrow> True | Some ss \<Rightarrow> ss = [])))"
  by (simp add: full_snapshot_def split: option.splits list.splits)

text \<open>A report of the full mode is the full analysis of the substructures read.\<close>

lemma analyze_full_mode:
  assumes "analyzeFactorioSave saveData = Some r" and "fullAnalysisAvailable r"
  shows "\<exists>s g m s0 ft pf stats itemStats ents techs pp pc oc ic.
           full_snapshot saveData = Some (s, g, m, s0) \<and>
           forces g = Some ft \<and> entities s0 = Some ents \<and> player ft = Some pf \<and>
           technologies pf = Some techs \<and> electric_network_statistics pf = Some stats \<and>
           stat_production stats = Some pp \<and> item_production_statistics pf = Some itemStats \<and>
           output_counts itemStats = Some oc \<and> items pf = Some ic \<and> stat_consumption stats = Some pc \<and>
           r = full_analysis (map_name m) (game_version s) (tick g) ents techs pp pc oc ic"
proof (cases "full_snapshot saveData")
  case None
  with assms show ?thesis
    by (auto simp: analyzeFactorioSave_def buildHeaderOnlyAnalysis_def)
next
  case (Some q)
  obtain s g m s0 where q: "q = (s, g, m, s0)" by (cases q) auto
  from assms(1) Some q show ?thesis
    by (auto simp: analyzeFactorioSave_def split: Option.bind_splits)
qed

lemma full_analysis_sections:
  "fullAnalysisAvailable (full_analysis mn v t ents techs pp pc oc ic)"
  "enemy (full_analysis mn v t ents techs pp pc oc ic) = enemy_section ents"
  "powerInfo (full_analysis mn v t ents techs pp pc oc ic) = power_section pp pc"
  "develop (full_analysis mn v t ents techs pp pc oc ic) =
     develop_section
       (Number_of_toFixed2
          (js_div (js_div (case t of None \<Rightarrow> NaN | Some x \<Rightarrow> Fin x) (Fin 60)) (Fin 60))) techs pp"
  "gameTimeHour (basic (full_analysis mn v t ents techs pp pc oc ic)) =
     Fixed2 (js_div (js_div (case t of None \<Rightarrow> NaN | Some x \<Rightarrow> Fin x) (Fin 60)) (Fin 60))"
  "production (full_analysis mn v t ents techs pp pc oc ic) =
     production_section (dev_stage (develop (full_analysis mn v t ents techs pp pc oc ic))) ents"
  "resource (full_analysis mn v t ents techs pp pc oc ic) = resource_section oc ic ents"
  by (simp_all add: full_analysis_def Let_def Number_of_def)

lemma analyze_sample_save:
  "analyzeFactorioSave (Some (sample_save t (sample_player n produced consumed) ents))
     = Some (sample_report t n produced consumed ents)"
  by (simp add: analyzeFactorioSave_def full_snapshot_def sample_save_def sample_player_def
      sample_report_def)

lemma sample_report_full: "fullAnalysisAvailable (sample_report t n produced consumed ents)"
  by (simp add: sample_report_def full_analysis_sections)




subsection \<open>Development score\<close>




subsection \<open>Totality of the two modes\<close>

text \<open>Leaves that are missing are read as zero (as one for the consumption).\<close>

lemma missing_leaves_default:
  "mined (resource_section Map.empty ic ents) =
     [(IronOre, 0), (CopperOre, 0), (Coal, 0), (CrudeOil, 0)]"
  "storage (resource_section oc Map.empty ents) =
     [(IronPlate, 0), (CopperPlate, 0), (IronGearWheel, 0), (CopperCable, 0)]"
  "remaining (resource_section oc ic []) =
     [(IronOre, 0), (CopperOre, 0), (Coal, 0), (CrudeOil, 0)]"
  "totalProduction (power_section (pp\<lparr>production_total := None\<rparr>) pc) = 0"
  "totalConsumption (power_section pp \<lparr>consumption_total = None\<rparr>) = 1"
  by (simp_all add: resource_section_def power_section_def coreResources_def number_or_def Let_def
      round_half_up_def)




lemma header_only_analysis_examples:
  "basic (the (analyzeFactorioSave (Some header_save))) =
     \<lparr>saveName = ascii ''my base'', gameTimeHour = Literal dash, gameVersion = ascii ''1.1.100''\<rparr>"
  "basic (the (analyzeFactorioSave
      (Some \<lparr>game = None, map_data = None, game_version = None, header_name = None,
             factorioVersion = None\<rparr>))) =
     \<lparr>saveName = unnamed_base, gameTimeHour = Literal dash, gameVersion = unknown_version\<rparr>"
  by (simp_all add: analyzeFactorioSave_def full_snapshot_def header_save_def buildHeaderOnlyAnalysis_def)

text \<open>
  Claim C5.  For every input without a full snapshot (no save data at all, no
  game state, no map state, or no first surface) \<open>analyzeFactorioSave\<close> returns a
  report and does not raise.  The report has \<open>fullAnalysisAvailable = false\<close>; its
  basic section holds the name and the version of the header, with the fallback
  name, the fallback version and the dash when they are absent; the five other
  dimensions are zero or empty; the only suggestion is the notice that the full
  analysis needs a complete snapshot, in the \<open>suggest\<close> bucket.
\<close>

theorem header_only_analysis_total:
  assumes "full_snapshot saveData = None"
  shows "analyzeFactorioSave saveData = Some
     \<lparr>fullAnalysisAvailable = False,
      basic = \<lparr>
        saveName = (case saveData of None \<Rightarrow> unnamed_base
                    | Some s \<Rightarrow> (case header_name s of None \<Rightarrow> unnamed_base | Some n \<Rightarrow> n)),
        gameTimeHour = Literal dash,
        gameVersion =
          (case saveData of None \<Rightarrow> unknown_version
           | Some s \<Rightarrow>
              (case factorioVersion s of None \<Rightarrow> unknown_version
               | Some v \<Rightarrow> (case asString v of None \<Rightarrow> unknown_version | Some a \<Rightarrow> a)))\<rparr>,
      develop = \<lparr>dev_stage = Early, score = Fin 0,
        techStatus = \<lparr>researchedCount = 0, totalTechCount = 0, techRate = Literal (ascii ''0.00%'')\<rparr>,
        mainPowerType = Thermal\<rparr>,
      resource = \<lparr>mined = [], remaining = [], storage = [], coreResAlert = []\<rparr>,
      production = \<lparr>machines = [], efficiencyRate = Literal dash, efficiencyAlert = []\<rparr>,
      powerInfo = \<lparr>totalProduction = 0, totalConsumption = 0, powerRatio = Literal dash,
        powerStatus = Sufficient\<rparr>,
      enemy = \<lparr>totalCount = 0, nestCount = 0, threatLevel = Low, threatAlert = []\<rparr>,
      optimizeSuggestions = \<lparr>urgent = [], important = [], suggest = [HeaderOnlyNotice]\<rparr>\<rparr>"
  using assms
  by (simp add: analyzeFactorioSave_def buildHeaderOnlyAnalysis_def split: option.splits)

theorem header_only_analysis_total_witness:
  "full_snapshot None = None \<and>
   analyzeFactorioSave None = Some
     \<lparr>fullAnalysisAvailable = False,
      basic = \<lparr>saveName = unnamed_base, gameTimeHour = Literal dash, gameVersion = unknown_version\<rparr>,
      develop = \<lparr>dev_stage = Early, score = Fin 0,
        techStatus = \<lparr>researchedCount = 0, totalTechCount = 0, techRate = Literal (ascii ''0.00%'')\<rparr>,
        mainPowerType = Thermal\<rparr>,
      resource = \<lparr>mined = [], remaining = [], storage = [], coreResAlert = []\<rparr>,
      production = \<lparr>machines = [], efficiencyRate = Literal dash, efficiencyAlert = []\<rparr>,
      powerInfo = \<lparr>totalProduction = 0, totalConsumption = 0, powerRatio = Literal dash,
        powerStatus = Sufficient\<rparr>,
      enemy = \<lparr>totalCount = 0, nestCount = 0, threatLevel = Low, threatAlert = []\<rparr>,
      optimizeSuggestions = \<lparr>urgent = [], important = [], suggest = [HeaderOnlyNotice]\<rparr>\<rparr>"
proof -
  have h: "full_snapshot None = None" by (simp add: full_snapshot_def)
  show ?thesis using h header_only_analysis_total [OF h] by simp
qed

subsection \<open>Power\<close>

text \<open>
  In full mode the printed ratio is the quotient of the two rounded totals and the
  status is read from the printed ratio by the thresholds 1.10 and 0.90.
\<close>

lemma power_status_by_printed_ratio:
  assumes "analyzeFactorioSave saveData = Some r" and "fullAnalysisAvailable r"
  shows "powerRatio (powerInfo r) =
           Fixed2 (js_div (Fin (of_int (totalProduction (powerInfo r))))
                          (Fin (of_int (totalConsumption (powerInfo r))))) \<and>
         powerStatus (powerInfo r) =
           (if js_ge (Number_of (powerRatio (powerInfo r))) (Fin (11 / 10)) then Sufficient
            else if js_ge (Number_of (powerRatio (powerInfo r))) (Fin (9 / 10)) then Tight
            else Insufficient)"
proof -
  from analyze_full_mode [OF assms] obtain ents techs pp pc oc ic mn v t where
    r: "r = full_analysis mn v t ents techs pp pc oc ic"
    by blast
  show ?thesis
    by (simp add: r full_analysis_sections power_section_def Let_def Number_of_def)
qed

lemma power_status_boundaries:
  "powerInfo (sample_report t n (Some 110) (Some 100) ents) =
     \<lparr>totalProduction = 110, totalConsumption = 100, powerRatio = Fixed2 (Fin (11 / 10)),
      powerStatus = Sufficient\<rparr>"
  "powerInfo (sample_report t n (Some 90) (Some 100) ents) =
     \<lparr>totalProduction = 90, totalConsumption = 100, powerRatio = Fixed2 (Fin (9 / 10)),
      powerStatus = Tight\<rparr>"
  "powerInfo (sample_report t n (Some 89) (Some 100) ents) =
     \<lparr>totalProduction = 89, totalConsumption = 100, powerRatio = Fixed2 (Fin (89 / 100)),
      powerStatus = Insufficient\<rparr>"
  "powerInfo (sample_report t n (Some 7) None ents) =
     \<lparr>totalProduction = 7, totalConsumption = 1, powerRatio = Fixed2 (Fin 7),
      powerStatus = Sufficient\<rparr>"
  by (simp_all add: sample_report_def full_analysis_sections power_section_def Let_def
      number_or_def round_half_up_def js_div_def Number_of_toFixed2_def js_ge_def js_lt_def)

text \<open>
  The default does keep the divisor at 1 or above when the consumption total is
  missing, zero, or at least one half.
\<close>

lemma consumption_floor_when_not_small:
  "consumption_total pc = None \<or> consumption_total pc = Some 0 \<or>
   (\<exists>x. consumption_total pc = Some x \<and> 1 / 2 \<le> x) \<Longrightarrow>
   1 \<le> totalConsumption (power_section pp pc)"
  by (auto simp: power_section_def Let_def number_or_def round_half_up_def le_floor_iff)

text \<open>
  Claim C6.  The specification floors the consumption at 1 before dividing, and
  the source says of its default that it avoids a division by zero.  The default
  is applied before rounding, so a consumption total of 0.4 is kept, rounds to 0,
  and the production of 5 is divided by zero: the report shows a consumption of
  0, an infinite ratio, and the status sufficient.
\<close>

theorem consumption_rounds_to_zero:
  "analyzeFactorioSave (Some (sample_save (Some 18000) (sample_player 30 (Some 5) (Some (4 / 10))) []))
     = Some (sample_report (Some 18000) 30 (Some 5) (Some (4 / 10)) []) \<and>
   powerInfo (sample_report (Some 18000) 30 (Some 5) (Some (4 / 10)) []) =
     \<lparr>totalProduction = 5, totalConsumption = 0, powerRatio = Fixed2 PosInf,
      powerStatus = Sufficient\<rparr>"
  by (simp add: analyze_sample_save sample_report_def full_analysis_sections power_section_def Let_def
      number_or_def round_half_up_def js_div_def Number_of_toFixed2_def js_ge_def js_lt_def)

subsection \<open>Threat\<close>

lemma threat_level_boundaries:
  "threatLevel (enemy_section (replicate 9 biter_nest)) = Medium"
  "threatLevel (enemy_section (replicate 10 biter_nest)) = High"
  "threatLevel (enemy_section (replicate 29 biter_nest)) = High"
  "threatLevel (enemy_section (replicate 30 biter_nest)) = Critical"
  "threatLevel (enemy_section []) = Low"
  by (simp_all add: enemy_section_def Let_def biter_nest_def)

text \<open>
  Claim C7.  In full mode the nest count is the number of entities of the first
  surface named \<open>biter-nest\<close> or \<open>spitter-nest\<close>, and the threat level is a function
  of the nest count alone: low at 0, medium from 1 to 9, high from 10 to 29,
  critical from 30 on; the list of threat alerts is non-empty exactly when the
  level is high or critical.
\<close>

theorem threat_level_by_nest_count:
  assumes "analyzeFactorioSave saveData = Some r" and "fullAnalysisAvailable r"
  shows "nestCount (enemy r) = length (filter is_nest (first_surface_entities saveData)) \<and>
         threatLevel (enemy r) =
           (if nestCount (enemy r) = 0 then Low
            else if nestCount (enemy r) < 10 then Medium
            else if nestCount (enemy r) < 30 then High
            else Critical) \<and>
         (threatAlert (enemy r) \<noteq> [] \<longleftrightarrow>
            threatLevel (enemy r) = High \<or> threatLevel (enemy r) = Critical)"
proof -
  from analyze_full_mode [OF assms] obtain s g m s0 ents techs pp pc oc ic mn v t where
    snap: "full_snapshot saveData = Some (s, g, m, s0)" and ents: "entities s0 = Some ents" and
    r: "r = full_analysis mn v t ents techs pp pc oc ic"
    by blast
  have e: "enemy r = enemy_section ents" by (simp add: r full_analysis_sections)
  have f: "first_surface_entities saveData = ents"
    by (simp add: first_surface_entities_def snap ents)
  show ?thesis
    unfolding e f by (simp add: enemy_section_def Let_def is_nest_def [abs_def])
qed

theorem threat_level_by_nest_count_witness:
  "analyzeFactorioSave (Some (sample_save None (sample_player 0 None None) (replicate 30 biter_nest)))
     = Some (sample_report None 0 None None (replicate 30 biter_nest)) \<and>
   fullAnalysisAvailable (sample_report None 0 None None (replicate 30 biter_nest)) \<and>
   nestCount (enemy (sample_report None 0 None None (replicate 30 biter_nest))) = 30 \<and>
   threatLevel (enemy (sample_report None 0 None None (replicate 30 biter_nest))) = Critical \<and>
   threatAlert (enemy (sample_report None 0 None None (replicate 30 biter_nest))) \<noteq> []"
proof -
  have a: "analyzeFactorioSave
             (Some (sample_save None (sample_player 0 None None) (replicate 30 biter_nest)))
     = Some (sample_report None 0 None None (replicate 30 biter_nest))" by (rule analyze_sample_save)
  have b: "fullAnalysisAvailable (sample_report None 0 None None (replicate 30 biter_nest))"
    by (rule sample_report_full)
  have f: "first_surface_entities
             (Some (sample_save None (sample_player 0 None None) (replicate 30 biter_nest)))
     = replicate 30 biter_nest"
    by (simp add: first_surface_entities_def full_snapshot_def sample_save_def)
  have n: "is_nest biter_nest" by (simp add: is_nest_def biter_nest_def)
  show ?thesis
    using a b threat_level_by_nest_count [OF a b] by (simp add: f n)
qed

subsection \<open>Production efficiency\<close>

lemma efficiency_rate_examples:
  "efficiencyRate (production_section stg []) = Literal (ascii ''100%'')"
  "efficiencyRate (production_section stg [steel_furnace, stone_furnace, stone_furnace, stone_furnace])
     = Fixed2Percent (Fin 25)"
  by (simp_all add: production_section_def Let_def count_named_def steel_furnace_def stone_furnace_def
      js_div_def js_mul_def)

text \<open>
  Claim C10.  In full mode the counts of stone furnaces, steel furnaces, electric
  and burner mining drills in the report are the counts of the entities of those
  names; when their total is zero the efficiency rate is the string \<open>100%\<close>, and
  only when it is positive is the rate the quotient of the upgraded machines by
  that total, as a percentage.
\<close>

theorem efficiency_rate_guarded:
  assumes "analyzeFactorioSave saveData = Some r" and "fullAnalysisAvailable r"
  shows "(let ents = first_surface_entities saveData;
              stone = count_named ents (ascii ''stone-furnace'');
              steel = count_named ents (ascii ''steel-furnace'');
              electric = count_named ents (ascii ''electric-mining-drill'');
              burner = count_named ents (ascii ''burner-mining-drill'');
              totalMachine = stone + steel + electric + burner
          in machine_count r StoneFurnace = stone \<and> machine_count r SteelFurnace = steel \<and>
             machine_count r ElectricMiningDrill = electric \<and>
             machine_count r BurnerMiningDrill = burner \<and>
             (totalMachine = 0 \<longrightarrow> efficiencyRate (production r) = Literal (ascii ''100%'')) \<and>
             (0 < totalMachine \<longrightarrow>
                efficiencyRate (production r) =
                  Fixed2Percent (Fin (real (steel + electric) / real totalMachine * 100))))"
proof -
  from analyze_full_mode [OF assms] obtain s g m s0 ents techs pp pc oc ic mn v t where
    snap: "full_snapshot saveData = Some (s, g, m, s0)" and ents: "entities s0 = Some ents" and
    r: "r = full_analysis mn v t ents techs pp pc oc ic"
    by blast
  have p: "production r = production_section (dev_stage (develop r)) ents"
    by (simp add: r full_analysis_sections)
  have f: "first_surface_entities saveData = ents"
    by (simp add: first_surface_entities_def snap ents)
  show ?thesis
    unfolding f machine_count_def p
    by (simp add: production_section_def Let_def js_div_def js_mul_def add.assoc add.left_commute)
qed

theorem efficiency_rate_guarded_witness:
  "analyzeFactorioSave (Some (sample_save None (sample_player 0 None None) [biter_nest]))
     = Some (sample_report None 0 None None [biter_nest]) \<and>
   fullAnalysisAvailable (sample_report None 0 None None [biter_nest]) \<and>
   efficiencyRate (production (sample_report None 0 None None [biter_nest])) = Literal (ascii ''100%'')"
proof -
  have a: "analyzeFactorioSave (Some (sample_save None (sample_player 0 None None) [biter_nest]))
     = Some (sample_report None 0 None None [biter_nest])" by (rule analyze_sample_save)
  have b: "fullAnalysisAvailable (sample_report None 0 None None [biter_nest])"
    by (rule sample_report_full)
  have f: "first_surface_entities (Some (sample_save None (sample_player 0 None None) [biter_nest]))
     = [biter_nest]"
    by (simp add: first_surface_entities_def full_snapshot_def sample_save_def)
  have c: "\<And>n. n \<noteq> ascii ''biter-nest'' \<Longrightarrow> count_named [biter_nest] n = 0"
    by (simp add: count_named_def biter_nest_def)
  show ?thesis
    using a b efficiency_rate_guarded [OF a b] unfolding f
    by (simp add: Let_def c)
qed

end
